theory Spec2Isabelle
  imports Complex_Main
begin

section \<open>JavaScript numbers\<close>

text \<open>
  The TypeScript sources compute with \<^verbatim>\<open>number\<close>. Parameters are taken to be finite
  numbers and are modelled as \<^typ>\<open>real\<close> with exact arithmetic (rounding, overflow and the
  sign of zero are not represented). A value that the program computes by a division or
  from a loop bound can be infinite or \<^verbatim>\<open>NaN\<close>; such values are of type \<open>jsnum\<close>,
  whose operations follow ECMAScript on the non-finite values.
\<close>

datatype jsnum = Num real | PosInf | NegInf | NaN

fun js_neg :: "jsnum \<Rightarrow> jsnum" where
  "js_neg (Num a) = Num (- a)"
| "js_neg PosInf = NegInf"
| "js_neg NegInf = PosInf"
| "js_neg NaN = NaN"

fun js_add :: "jsnum \<Rightarrow> jsnum \<Rightarrow> jsnum" where
  "js_add (Num a) (Num b) = Num (a + b)"
| "js_add NaN _ = NaN"
| "js_add _ NaN = NaN"
| "js_add PosInf NegInf = NaN"
| "js_add NegInf PosInf = NaN"
| "js_add PosInf _ = PosInf"
| "js_add _ PosInf = PosInf"
| "js_add NegInf _ = NegInf"
| "js_add _ NegInf = NegInf"

definition js_sub :: "jsnum \<Rightarrow> jsnum \<Rightarrow> jsnum" where
  "js_sub a b = js_add a (js_neg b)"

text \<open>The infinity whose sign is the sign of \<open>s\<close>; \<^verbatim>\<open>NaN\<close> when \<open>s\<close> is zero.\<close>

definition signed_inf :: "real \<Rightarrow> jsnum" where
  "signed_inf s = (if 0 < s then PosInf else if s < 0 then NegInf else NaN)"

fun js_mul :: "jsnum \<Rightarrow> jsnum \<Rightarrow> jsnum" where
  "js_mul (Num a) (Num b) = Num (a * b)"
| "js_mul NaN _ = NaN"
| "js_mul _ NaN = NaN"
| "js_mul (Num a) PosInf = signed_inf a"
| "js_mul (Num a) NegInf = signed_inf (- a)"
| "js_mul PosInf (Num b) = signed_inf b"
| "js_mul NegInf (Num b) = signed_inf (- b)"
| "js_mul PosInf PosInf = PosInf"
| "js_mul PosInf NegInf = NegInf"
| "js_mul NegInf PosInf = NegInf"
| "js_mul NegInf NegInf = PosInf"

text \<open>Division; a zero divisor is the positive zero.\<close>

fun js_div :: "jsnum \<Rightarrow> jsnum \<Rightarrow> jsnum" where
  "js_div (Num a) (Num b) = (if b = 0 then signed_inf a else Num (a / b))"
| "js_div NaN _ = NaN"
| "js_div _ NaN = NaN"
| "js_div (Num a) PosInf = Num 0"
| "js_div (Num a) NegInf = Num 0"
| "js_div PosInf (Num b) = (if 0 \<le> b then PosInf else NegInf)"
| "js_div NegInf (Num b) = (if 0 \<le> b then NegInf else PosInf)"
| "js_div PosInf PosInf = NaN"
| "js_div PosInf NegInf = NaN"
| "js_div NegInf PosInf = NaN"
| "js_div NegInf NegInf = NaN"

text \<open>The comparisons \<^verbatim>\<open><\<close> and \<^verbatim>\<open><=\<close>: false as soon as an operand is \<^verbatim>\<open>NaN\<close>.\<close>

fun js_lt :: "jsnum \<Rightarrow> jsnum \<Rightarrow> bool" where
  "js_lt (Num a) (Num b) = (a < b)"
| "js_lt NaN _ = False"
| "js_lt _ NaN = False"
| "js_lt _ NegInf = False"
| "js_lt PosInf _ = False"
| "js_lt NegInf _ = True"
| "js_lt _ PosInf = True"

fun js_le :: "jsnum \<Rightarrow> jsnum \<Rightarrow> bool" where
  "js_le (Num a) (Num b) = (a \<le> b)"
| "js_le NaN _ = False"
| "js_le _ NaN = False"
| "js_le NegInf _ = True"
| "js_le _ PosInf = True"
| "js_le _ NegInf = False"
| "js_le PosInf _ = False"


text \<open>\<^verbatim>\<open>Math.floor\<close> and \<^verbatim>\<open>Math.ceil\<close>.\<close>

fun js_floor :: "jsnum \<Rightarrow> jsnum" where
  "js_floor (Num a) = Num (of_int \<lfloor>a\<rfloor>)"
| "js_floor v = v"

fun js_ceil :: "jsnum \<Rightarrow> jsnum" where
  "js_ceil (Num a) = Num (of_int \<lceil>a\<rceil>)"
| "js_ceil v = v"

text \<open>
  \<^verbatim>\<open>Math.tan\<close> of a finite argument. At a pole of the tangent the exact value is
  infinite, with the sign of the sine.
\<close>

definition js_tan :: "real \<Rightarrow> jsnum" where
  "js_tan a = (if cos a = 0 then signed_inf (sin a) else Num (tan a))"

section \<open>Types of the specimen designer\<close>

datatype SpecimenType = Circular
datatype ASTMStandard = E466 | E606 | E8
datatype MaterialType = Steel | Aluminum | Titanium
datatype TransitionType = TangentArc | Spline | Conical

text \<open>The lattice types of \<^verbatim>\<open>lib/lattice-generators.ts\<close> and \<^verbatim>\<open>types.ts\<close>.\<close>

datatype LatticeType =
  LNone | VerticalGrid | VerticalCross | VerticalDiamond | VerticalGyroid
  | SimpleVertical | Vertical

record Point2D =
  pt_x :: jsnum
  pt_y :: jsnum

record SpecimenParams =
  gripLength :: real
  gripDiameter :: real
  gaugeLength :: real
  gaugeDiameter :: real
  filletRadius :: real
  transitionType :: TransitionType
  useTaperedTransition :: bool
  taperAngle :: real
  material :: MaterialType
  latticeType :: LatticeType
  latticeSize :: real
  latticeThickness :: real
  latticeOffset :: real

text \<open>
  The profile repeats most fields of the parameters; the copies carry the prefix \<open>pf_\<close>.
\<close>

record SpecimenProfile =
  points :: "Point2D list"
  totalLength :: jsnum
  pf_gripLength :: real
  pf_gaugeLength :: real
  transitionLength :: jsnum
  pf_gripDiameter :: real
  pf_gaugeDiameter :: real
  pf_filletRadius :: real
  isCircular :: bool
  pf_useTaperedTransition :: bool
  pf_taperAngle :: real
  pf_latticeType :: LatticeType
  pf_latticeSize :: real
  pf_latticeThickness :: real
  pf_latticeOffset :: real

section \<open>Validator\<close>














section \<open>Profile generator\<close>

definition calculateTransitionLength :: "real \<Rightarrow> real \<Rightarrow> real \<Rightarrow> TransitionType \<Rightarrow> real" where
  "calculateTransitionLength gripRadius gaugeRadius filletRad transType =
     (let radiusDifference = gripRadius - gaugeRadius
      in max (radiusDifference * 4) (filletRad * 1.2))"

definition calculateTaperedTransitionLength :: "real \<Rightarrow> real \<Rightarrow> real \<Rightarrow> jsnum" where
  "calculateTaperedTransitionLength gripRadius gaugeRadius taperAng =
     (let radiusDifference = gripRadius - gaugeRadius;
          taperAngleRadians = (taperAng * pi) / 180
      in js_div (Num radiusDifference) (js_tan taperAngleRadians))"

definition numPoints :: nat where
  "numPoints = 20"

text \<open>The body of the loop of \<^verbatim>\<open>generateTransitionPoints\<close> at index \<open>i\<close>.\<close>

definition transitionPoint :: "Point2D \<Rightarrow> Point2D \<Rightarrow> nat \<Rightarrow> Point2D" where
  "transitionPoint startPoint endPoint i =
     (let t = real i / real numPoints;
          x = js_add (pt_x startPoint)
                (js_mul (js_sub (pt_x endPoint) (pt_x startPoint)) (Num t));
          smoothT = (1 - cos (pi * t)) / 2;
          y = js_add (pt_y startPoint)
                (js_mul (js_sub (pt_y endPoint) (pt_y startPoint)) (Num smoothT))
      in \<lparr>pt_x = x, pt_y = y\<rparr>)"

definition generateTransitionPoints ::
  "Point2D \<Rightarrow> Point2D \<Rightarrow> real \<Rightarrow> TransitionType \<Rightarrow> Point2D list" where
  "generateTransitionPoints startPoint endPoint filletRad transType =
     map (transitionPoint startPoint endPoint) [1..<numPoints]"

definition generateCircularSpecimenProfile :: "SpecimenParams \<Rightarrow> SpecimenProfile" where
  "generateCircularSpecimenProfile params =
     (let gripR = Num (gripDiameter params / 2);
          gaugeR = Num (gaugeDiameter params / 2);
          transLen =
            (if useTaperedTransition params
             then calculateTaperedTransitionLength (gripDiameter params / 2)
                    (gaugeDiameter params / 2) (taperAngle params)
             else Num (calculateTransitionLength (gripDiameter params / 2)
                    (gaugeDiameter params / 2) (filletRadius params) (transitionType params)));
          total = js_add (js_add (Num (gripLength params * 2)) (Num (gaugeLength params)))
                    (js_mul transLen (Num 2));
          leftEnd = js_div (js_neg total) (Num 2);
          rightEnd = js_div total (Num 2);
          gaugeLeft = Num (- gaugeLength params / 2);
          gaugeRight = Num (gaugeLength params / 2);
          transLeft = js_sub gaugeLeft transLen;
          transRight = js_add gaugeRight transLen;
          pts =
            [\<lparr>pt_x = leftEnd, pt_y = Num 0\<rparr>,
             \<lparr>pt_x = leftEnd, pt_y = gripR\<rparr>,
             \<lparr>pt_x = transLeft, pt_y = gripR\<rparr>]
            @ (if useTaperedTransition params
               then [\<lparr>pt_x = gaugeLeft, pt_y = gaugeR\<rparr>]
               else generateTransitionPoints
                      \<lparr>pt_x = transLeft, pt_y = gripR\<rparr> \<lparr>pt_x = gaugeLeft, pt_y = gaugeR\<rparr>
                      (filletRadius params) (transitionType params))
            @ [\<lparr>pt_x = gaugeLeft, pt_y = gaugeR\<rparr>,
               \<lparr>pt_x = gaugeRight, pt_y = gaugeR\<rparr>]
            @ (if useTaperedTransition params
               then [\<lparr>pt_x = transRight, pt_y = gripR\<rparr>]
               else generateTransitionPoints
                      \<lparr>pt_x = gaugeRight, pt_y = gaugeR\<rparr> \<lparr>pt_x = transRight, pt_y = gripR\<rparr>
                      (filletRadius params) (transitionType params))
            @ [\<lparr>pt_x = transRight, pt_y = gripR\<rparr>,
               \<lparr>pt_x = rightEnd, pt_y = gripR\<rparr>,
               \<lparr>pt_x = rightEnd, pt_y = Num 0\<rparr>]
      in \<lparr>points = pts,
          totalLength = total,
          pf_gripLength = gripLength params,
          pf_gaugeLength = gaugeLength params,
          transitionLength = transLen,
          pf_gripDiameter = gripDiameter params,
          pf_gaugeDiameter = gaugeDiameter params,
          pf_filletRadius = filletRadius params,
          isCircular = True,
          pf_useTaperedTransition = useTaperedTransition params,
          pf_taperAngle = taperAngle params,
          pf_latticeType = latticeType params,
          pf_latticeSize = latticeSize params,
          pf_latticeThickness = latticeThickness params,
          pf_latticeOffset = latticeOffset params\<rparr>)"

definition generateSpecimenProfile :: "SpecimenType \<Rightarrow> SpecimenParams \<Rightarrow> SpecimenProfile" where
  "generateSpecimenProfile type params = generateCircularSpecimenProfile params"

section \<open>Lattice parameters and the volume estimator\<close>

text \<open>
  The interface \<^verbatim>\<open>LatticeParams\<close>; its fields \<^verbatim>\<open>size\<close>, \<^verbatim>\<open>thickness\<close>,
  \<^verbatim>\<open>offset\<close>, \<^verbatim>\<open>radius\<close> and \<^verbatim>\<open>length\<close> carry the prefix \<open>lp_\<close>.
\<close>

record LatticeParams =
  lp_size :: real
  lp_thickness :: real
  lp_offset :: real
  lp_radius :: real
  lp_length :: real

text \<open>
  \<^verbatim>\<open>calculateLatticeVolumeReduction\<close>. The \<^verbatim>\<open>default\<close> branch of the switch is
  not reachable from a value of the type \<open>LatticeType\<close> and is left out.
\<close>

definition calculateLatticeVolumeReduction :: "LatticeType \<Rightarrow> LatticeParams \<Rightarrow> jsnum" where
  "calculateLatticeVolumeReduction ltype params =
     (if ltype = LNone then Num 0
      else
        let gaugeVolume = pi * lp_radius params * lp_radius params * lp_length params
        in case ltype of
             SimpleVertical \<Rightarrow>
               (let spacing = lp_size params * 2;
                    numStruts = js_sub (js_floor (js_div (Num (lp_length params)) (Num spacing)))
                                  (Num 1);
                    strutVolume = pi * lp_thickness params * lp_thickness params
                                  * (lp_radius params * 2)
                in js_mul (js_div (js_mul numStruts (Num strutVolume)) (Num gaugeVolume))
                     (Num 0.5))
           | Vertical \<Rightarrow>
               (let holeSpacing = lp_size params * 2;
                    numHoles = js_sub (js_floor (js_div (Num (lp_length params)) (Num holeSpacing)))
                                 (Num 1);
                    holeVolume = pi * lp_thickness params * lp_thickness params
                                 * (lp_radius params * 2)
                in js_mul (js_div (js_mul numHoles (Num holeVolume)) (Num gaugeVolume))
                     (Num 0.8))
           | VerticalGrid \<Rightarrow> Num (0.25 + lp_offset params * 0.2)
           | VerticalCross \<Rightarrow> Num (0.3 + lp_offset params * 0.25)
           | VerticalDiamond \<Rightarrow> Num (0.35 + lp_offset params * 0.3)
           | VerticalGyroid \<Rightarrow> Num (0.4 + lp_offset params * 0.35)
           | LNone \<Rightarrow> Num 0)"

section \<open>Meshes, Boolean operations and loops\<close>

type_synonym vec3 = "real \<times> real \<times> real"

text \<open>
  \<^verbatim>\<open>THREE.CylinderGeometry(radiusTop, radiusBottom, height, radialSegments,
  heightSegments, openEnded, thetaStart, thetaLength)\<close>.
\<close>

record cylinder =
  radiusTop :: real
  radiusBottom :: real
  height :: real
  radialSegments :: nat
  heightSegments :: nat
  openEnded :: bool
  thetaStart :: real
  thetaLength :: real

text \<open>The constructor called with five arguments; the others take their defaults.\<close>

definition CylinderGeometry :: "real \<Rightarrow> real \<Rightarrow> real \<Rightarrow> nat \<Rightarrow> nat \<Rightarrow> cylinder" where
  "CylinderGeometry rt rb h rs hs =
     \<lparr>radiusTop = rt, radiusBottom = rb, height = h, radialSegments = rs,
      heightSegments = hs, openEnded = False, thetaStart = 0, thetaLength = 2 * pi\<rparr>"

text \<open>
  The primitive shapes: a cylinder, a sphere (radius and segment counts) and the
  geometry that \<^verbatim>\<open>createStrut\<close> builds between two points with a given radius.
\<close>

datatype shape =
  CylinderShape cylinder
  | SphereShape real nat nat
  | StrutShape vec3 vec3 real

text \<open>A mesh of a primitive shape with its \<^verbatim>\<open>position\<close> and Euler \<^verbatim>\<open>rotation\<close>.\<close>

record primitive_mesh =
  shape_of :: shape
  position :: vec3
  rotation :: vec3

text \<open>
  Geometries are terms: the gauge cylinder (radius, length, radial segments; rotated onto
  the X axis), the geometry of a primitive mesh, and the results of the Boolean
  operations of the CSG library, which are not computed.
\<close>

datatype geometry =
  GaugeCylinder real real nat
  | OfMesh primitive_mesh
  | CSGUnion geometry geometry
  | CSGSubtract geometry geometry

text \<open>
  A returned mesh: its geometry, the \<^verbatim>\<open>wireframe\<close> flag of its material and the
  primitive meshes attached below it.
\<close>

record mesh =
  mesh_geometry :: geometry
  wireframe :: bool
  children :: "primitive_mesh list"

text \<open>
  A Boolean operation of the CSG library may throw. Which operations throw is a
  parameter of the model: \<open>fails op a b\<close> says that operation \<open>op\<close> on the operands
  \<open>a\<close> and \<open>b\<close> throws. The constructors of the mesh library do not throw.
\<close>

datatype csg_op = OpUnion | OpSubtract

type_synonym csg_oracle = "csg_op \<Rightarrow> geometry \<Rightarrow> geometry \<Rightarrow> bool"

text \<open>
  The outcome of running a piece of code: it returns a value, it throws, or it does
  not return.
\<close>

datatype 'a outcome = Return 'a | Throw | Diverge

definition csg_subtract :: "csg_oracle \<Rightarrow> geometry \<Rightarrow> geometry \<Rightarrow> geometry outcome" where
  "csg_subtract fails a b = (if fails OpSubtract a b then Throw else Return (CSGSubtract a b))"

definition csg_union :: "csg_oracle \<Rightarrow> geometry \<Rightarrow> geometry \<Rightarrow> geometry outcome" where
  "csg_union fails a b = (if fails OpUnion a b then Throw else Return (CSGUnion a b))"

text \<open>
  \<^verbatim>\<open>try { g = op(g) } catch (error) { console.error(...) }\<close>: a throw inside the block
  leaves the state as it was.
\<close>

definition try_update :: "'s outcome \<Rightarrow> 's \<Rightarrow> 's outcome" where
  "try_update attempt s = (case attempt of Return s' \<Rightarrow> Return s' | Throw \<Rightarrow> Return s
                            | Diverge \<Rightarrow> Diverge)"

text \<open>A loop over the values of its counter, threading a state through the body.\<close>

fun for_each :: "'a list \<Rightarrow> ('a \<Rightarrow> 's \<Rightarrow> 's outcome) \<Rightarrow> 's \<Rightarrow> 's outcome" where
  "for_each [] body s = Return s"
| "for_each (v # vs) body s =
     (case body v s of Return s' \<Rightarrow> for_each vs body s' | Throw \<Rightarrow> Throw
      | Diverge \<Rightarrow> Diverge)"

text \<open>
  The values a loop counter takes; \<open>None\<close> when the loop never ends.

  \<^verbatim>\<open>for (let i = -n / 2; i <= n / 2; i++)\<close>: with \<open>n\<close> infinite the counter starts
  at minus infinity and incrementing it does not change it; with \<open>n\<close> negative infinity
  or \<^verbatim>\<open>NaN\<close> the condition is false at once.
\<close>

fun centered_range_incl :: "jsnum \<Rightarrow> real list option" where
  "centered_range_incl (Num n) = Some (map (\<lambda>j. - n / 2 + real j) [0..<nat (\<lfloor>n\<rfloor> + 1)])"
| "centered_range_incl PosInf = None"
| "centered_range_incl NegInf = Some []"
| "centered_range_incl NaN = Some []"

text \<open>\<^verbatim>\<open>for (let x = -n / 2; x < n / 2; x++)\<close>.\<close>

fun centered_range_excl :: "jsnum \<Rightarrow> real list option" where
  "centered_range_excl (Num n) = Some (map (\<lambda>j. - n / 2 + real j) [0..<nat \<lceil>n\<rceil>])"
| "centered_range_excl PosInf = None"
| "centered_range_excl NegInf = Some []"
| "centered_range_excl NaN = Some []"

text \<open>\<^verbatim>\<open>for (let ix = 0; ix < n; ix++)\<close>.\<close>

fun index_range :: "jsnum \<Rightarrow> nat list option" where
  "index_range (Num n) = Some [0..<nat \<lceil>n\<rceil>]"
| "index_range PosInf = None"
| "index_range NegInf = Some []"
| "index_range NaN = Some []"

definition for_range :: "'a list option \<Rightarrow> ('a \<Rightarrow> 's \<Rightarrow> 's outcome) \<Rightarrow> 's \<Rightarrow> 's outcome" where
  "for_range vals body s = (case vals of None \<Rightarrow> Diverge | Some vs \<Rightarrow> for_each vs body s)"

section \<open>Lattice generators of \<^verbatim>\<open>lib/lattice-generators.ts\<close>\<close>

text \<open>\<^verbatim>\<open>Math.floor(length / spacing) - 1\<close>, the count that every generator starts from.\<close>

definition count_along :: "real \<Rightarrow> real \<Rightarrow> jsnum" where
  "count_along len spacing = js_sub (js_floor (js_div (Num len) (Num spacing))) (Num 1)"

text \<open>The test \<^verbatim>\<open>x < -length / 2 || x > length / 2\<close> that skips an iteration.\<close>

definition outside_length :: "LatticeParams \<Rightarrow> real \<Rightarrow> bool" where
  "outside_length params x = (x < - lp_length params / 2 \<or> x > lp_length params / 2)"

text \<open>
  The block that every hole-cutting generator repeats: build the hole mesh, subtract
  it from the gauge geometry and store the result, inside \<^verbatim>\<open>try\<close>.
\<close>

definition subtract_hole :: "csg_oracle \<Rightarrow> primitive_mesh \<Rightarrow> geometry \<Rightarrow> geometry outcome" where
  "subtract_hole fails holeMesh gaugeGeometry =
     try_update (csg_subtract fails gaugeGeometry (OfMesh holeMesh)) gaugeGeometry"














text \<open>The mesh of the \<^verbatim>\<open>catch\<close> block: the plain gauge cylinder, drawn as wireframe.\<close>

definition fallbackMesh :: "LatticeParams \<Rightarrow> nat \<Rightarrow> mesh" where
  "fallbackMesh params segments =
     \<lparr>mesh_geometry = GaugeCylinder (lp_radius params) (lp_length params) segments,
      wireframe = True, children = []\<rparr>"

text \<open>\<^verbatim>\<open>try { ... return mesh } catch (error) { ... return fallbackMesh }\<close>.\<close>

definition catch_fallback :: "mesh outcome \<Rightarrow> mesh \<Rightarrow> mesh outcome" where
  "catch_fallback attempt fallback =
     (case attempt of Return m \<Rightarrow> Return m | Throw \<Rightarrow> Return fallback | Diverge \<Rightarrow> Diverge)"


section \<open>Lattice generators of \<^verbatim>\<open>lib/materials.ts\<close>\<close>

text \<open>
  The second half of \<^verbatim>\<open>lib/materials.ts\<close> declares its own \<^verbatim>\<open>LatticeType\<close>,
  generators of unit-cell lattices and its own \<^verbatim>\<open>createLatticeGaugeSection\<close>; their
  names carry the suffix \<open>_m\<close> here.
\<close>

datatype LatticeType_m = Bcc | Fcc | Gyroid | Diamond | Octet | NoLattice | VerticalStruts

text \<open>
  \<^verbatim>\<open>Math.random()\<close> is not seeded. The values it returns are a parameter of the model:
  \<open>rnd n\<close> is the value of the \<open>n\<close>-th call, and the generators thread the number of
  calls made so far.
\<close>

type_synonym random_source = "nat \<Rightarrow> real"

type_synonym gen_state = "nat \<times> primitive_mesh list"

text \<open>
  \<^verbatim>\<open>isVertical || Math.random() < p\<close>: the random number is drawn only when
  \<open>isVertical\<close> is false.
\<close>

definition vertical_or_random :: "bool \<Rightarrow> random_source \<Rightarrow> real \<Rightarrow> nat \<Rightarrow> bool \<times> nat" where
  "vertical_or_random isVertical rnd p n =
     (if isVertical then (True, n) else (rnd n < p, Suc n))"

definition vec_add :: "vec3 \<Rightarrow> vec3 \<Rightarrow> vec3" where
  "vec_add a b = (case a of (ax, ay, az) \<Rightarrow> case b of (bx, by, bz) \<Rightarrow>
                    (ax + bx, ay + by, az + bz))"

definition vec_x :: "vec3 \<Rightarrow> real" where
  "vec_x a = fst a"

text \<open>\<^verbatim>\<open>Math.sqrt(v.y * v.y + v.z * v.z)\<close>.\<close>

definition dist_from_axis :: "vec3 \<Rightarrow> real" where
  "dist_from_axis a = (case a of (ax, ay, az) \<Rightarrow> sqrt (ay * ay + az * az))"

definition distanceTo :: "vec3 \<Rightarrow> vec3 \<Rightarrow> real" where
  "distanceTo a b = (case a of (ax, ay, az) \<Rightarrow> case b of (bx, by, bz) \<Rightarrow>
     sqrt ((bx - ax) * (bx - ax) + (by - ay) * (by - ay) + (bz - az) * (bz - az)))"

text \<open>
  The two tests that discard a point: its axial coordinate is outside the gauge length,
  or its distance from the axis exceeds the radius.
\<close>

definition outside_bounds :: "LatticeParams \<Rightarrow> vec3 \<Rightarrow> bool" where
  "outside_bounds params a =
     (vec_x a < - lp_length params / 2 \<or> vec_x a > lp_length params / 2
      \<or> dist_from_axis a > lp_radius params)"

text \<open>
  \<^verbatim>\<open>createStrut\<close>: \<open>None\<close> is the \<^verbatim>\<open>null\<close> returned for a strut shorter than 0.3.
\<close>

definition createStrut :: "vec3 \<Rightarrow> vec3 \<Rightarrow> real \<Rightarrow> primitive_mesh option" where
  "createStrut start end r =
     (if distanceTo start end < 0.3 then None
      else Some \<lparr>shape_of = StrutShape start end r, position = (0, 0, 0),
                 rotation = (0, 0, 0)\<rparr>)"

text \<open>\<^verbatim>\<open>if (strutGeometry) latticeGroup.add(new THREE.Mesh(strutGeometry))\<close>.\<close>

definition add_strut :: "vec3 \<Rightarrow> vec3 \<Rightarrow> real \<Rightarrow> primitive_mesh list \<Rightarrow> primitive_mesh list" where
  "add_strut start end r grp =
     (case createStrut start end r of None \<Rightarrow> grp | Some m \<Rightarrow> grp @ [m])"

definition sphere_mesh :: "real \<Rightarrow> nat \<Rightarrow> nat \<Rightarrow> vec3 \<Rightarrow> primitive_mesh" where
  "sphere_mesh r w h center =
     \<lparr>shape_of = SphereShape r w h, position = center, rotation = (0, 0, 0)\<rparr>"

text \<open>The callback that adds a sphere at a point unless the point is discarded.\<close>

definition add_sphere_inside ::
  "LatticeParams \<Rightarrow> real \<Rightarrow> primitive_mesh list \<Rightarrow> vec3 \<Rightarrow> primitive_mesh list" where
  "add_sphere_inside params r grp center =
     (if outside_bounds params center then grp else grp @ [sphere_mesh r 8 8 center])"

text \<open>
  The three nested loops over the cells, which the four unit-cell generators share;
  \<open>cell\<close> is the body of the innermost loop.
\<close>

definition for_cells :: "LatticeParams \<Rightarrow> (vec3 \<Rightarrow> 's \<Rightarrow> 's) \<Rightarrow> 's \<Rightarrow> 's outcome" where
  "for_cells params cell s0 =
     (let cellsX = js_ceil (js_div (Num (lp_length params)) (Num (lp_size params)));
          cellsY = js_ceil (js_div (Num (lp_radius params * 2)) (Num (lp_size params)));
          cellsZ = js_ceil (js_div (Num (lp_radius params * 2)) (Num (lp_size params)))
      in for_range (centered_range_excl cellsX)
           (\<lambda>x. for_range (centered_range_excl cellsY)
              (\<lambda>y. for_range (centered_range_excl cellsZ)
                 (\<lambda>z s. Return (cell (x, y, z) s))))
           s0)"

definition group_of :: "gen_state outcome \<Rightarrow> primitive_mesh list outcome" where
  "group_of result =
     (case result of Return s \<Rightarrow> Return (snd s) | Throw \<Rightarrow> Throw | Diverge \<Rightarrow> Diverge)"

subsection \<open>Vertical struts\<close>

definition generateVerticalLatticeMesh :: "LatticeParams \<Rightarrow> primitive_mesh list outcome" where
  "generateVerticalLatticeMesh params =
     (let spacing = lp_size params * 2;
          numStruts = count_along (lp_length params) spacing
      in for_range (centered_range_incl numStruts)
           (\<lambda>i grp.
              let x = i * spacing
              in if outside_length params x then Return grp
                 else
                   let strutMesh =
                         \<lparr>shape_of = CylinderShape
                            (CylinderGeometry (lp_thickness params) (lp_thickness params)
                               (lp_radius params * 2) 8 1),
                          position = (x, 0, 0), rotation = (0, 0, pi / 2)\<rparr>;
                       grp1 = grp @ [strutMesh]
                   in if js_lt (Num i) (js_div numStruts (Num 2))
                      then
                        (let nextX = (i + 1) * spacing
                         in if nextX \<le> lp_length params / 2
                            then Return (grp1 @
                                   [\<lparr>shape_of = CylinderShape
                                       (CylinderGeometry (lp_thickness params * 0.8)
                                          (lp_thickness params * 0.8) spacing 8 1),
                                     position = (x + spacing / 2, 0, 0),
                                     rotation = (0, 0, 0)\<rparr>])
                            else Return grp1)
                      else Return grp1)
           [])"

subsection \<open>Body-centred cubic\<close>

definition bcc_direction ::
  "random_source \<Rightarrow> LatticeParams \<Rightarrow> vec3 \<Rightarrow> gen_state \<Rightarrow> nat \<times> vec3 \<Rightarrow> gen_state" where
  "bcc_direction rnd params center s d =
     (case s of (n, grp) \<Rightarrow> case d of (index, dir) \<Rightarrow>
        let isVertical = index < 4
        in case vertical_or_random isVertical rnd 0.4 n of (go, n') \<Rightarrow>
             if go then
               (let endPoint = vec_add center dir
                in if outside_bounds params endPoint then (n', grp)
                   else
                     let strutThickness =
                           (if isVertical then lp_thickness params * 0.5
                            else lp_thickness params * 0.3)
                     in (n', add_strut center endPoint strutThickness grp))
             else (n', grp))"

definition bcc_cell :: "random_source \<Rightarrow> LatticeParams \<Rightarrow> vec3 \<Rightarrow> gen_state \<Rightarrow> gen_state" where
  "bcc_cell rnd params c s =
     (case c of (x, y, z) \<Rightarrow> case s of (n, grp) \<Rightarrow>
        let sz = lp_size params;
            x0 = x * sz; y0 = y * sz; z0 = z * sz;
            center = (x0 + sz / 2, y0 + sz / 2, z0 + sz / 2)
        in if outside_bounds params center then (n, grp)
           else
             let grp1 = grp @ [sphere_mesh (lp_thickness params * 0.8) 4 4 center];
                 directions = [(0, sz, 0), (0, 0, sz), (0, - sz, 0), (0, 0, - sz), (sz, 0, 0)]
             in foldl (bcc_direction rnd params center) (n, grp1) (enumerate 0 directions))"

definition generateBCCLatticeMesh ::
  "random_source \<Rightarrow> LatticeParams \<Rightarrow> primitive_mesh list outcome" where
  "generateBCCLatticeMesh rnd params = group_of (for_cells params (bcc_cell rnd params) (0, []))"

subsection \<open>Face-centred cubic\<close>

text \<open>The pairs \<open>(i, j)\<close> with \<open>i < j < n\<close>, in the order of the two nested loops.\<close>

definition index_pairs :: "nat \<Rightarrow> (nat \<times> nat) list" where
  "index_pairs n = concat (map (\<lambda>i. map (\<lambda>j. (i, j)) [Suc i..<n]) [0..<n])"

definition fcc_pair ::
  "random_source \<Rightarrow> LatticeParams \<Rightarrow> vec3 list \<Rightarrow> gen_state \<Rightarrow> nat \<times> nat \<Rightarrow> gen_state" where
  "fcc_pair rnd params faceCenters s ij =
     (case s of (n, grp) \<Rightarrow> case ij of (i, j) \<Rightarrow>
        let center1 = faceCenters ! i; center2 = faceCenters ! j
        in if outside_bounds params center1 \<or> outside_bounds params center2 then (n, grp)
           else if distanceTo center1 center2 \<le> sqrt 2 * lp_size params
           then
             (let isVertical = \<bar>vec_x center1 - vec_x center2\<bar> < 0.01 * lp_size params
              in case vertical_or_random isVertical rnd 0.7 n of (go, n') \<Rightarrow>
                   if go then (n', add_strut center1 center2 (lp_thickness params * 0.4) grp)
                   else (n', grp))
           else (n, grp))"

definition fcc_cell :: "random_source \<Rightarrow> LatticeParams \<Rightarrow> vec3 \<Rightarrow> gen_state \<Rightarrow> gen_state" where
  "fcc_cell rnd params c s =
     (case c of (x, y, z) \<Rightarrow> case s of (n, grp) \<Rightarrow>
        let sz = lp_size params;
            x0 = x * sz; y0 = y * sz; z0 = z * sz;
            faceCenters =
              [(x0, y0 + sz / 2, z0 + sz / 2),
               (x0 + sz, y0 + sz / 2, z0 + sz / 2),
               (x0 + sz / 2, y0, z0),
               (x0 + sz / 2, y0 + sz, z0),
               (x0 + sz / 2, y0, z0 + sz),
               (x0 + sz / 2, y0 + sz, z0 + sz)];
            grp1 = foldl (add_sphere_inside params (lp_thickness params)) grp faceCenters
        in foldl (fcc_pair rnd params faceCenters) (n, grp1) (index_pairs (length faceCenters)))"

definition generateFCCLatticeMesh ::
  "random_source \<Rightarrow> LatticeParams \<Rightarrow> primitive_mesh list outcome" where
  "generateFCCLatticeMesh rnd params = group_of (for_cells params (fcc_cell rnd params) (0, []))"

subsection \<open>Gyroid\<close>

definition gyroidFunction :: "real \<Rightarrow> real \<Rightarrow> real \<Rightarrow> real \<Rightarrow> real \<Rightarrow> real" where
  "gyroidFunction x y z scale off =
     (let scaledX = x * scale; scaledY = y * scale; scaledZ = z * scale
      in sin scaledX * cos scaledY + sin scaledY * cos scaledZ + sin scaledZ * cos scaledX - off)"

text \<open>What one grid point of the gyroid sampler adds to the group.\<close>

definition gyroid_point ::
  "LatticeParams \<Rightarrow> jsnum \<Rightarrow> jsnum \<Rightarrow> jsnum \<Rightarrow> nat \<Rightarrow> nat \<Rightarrow> nat \<Rightarrow> primitive_mesh list" where
  "gyroid_point params xSteps ySteps zSteps ix iy iz =
     (let resolution = 6;
          stepSize = lp_size params / resolution;
          threshold = lp_thickness params * 1.2;
          x = - lp_length params / 2 + real ix * stepSize;
          y = - lp_radius params + real iy * stepSize;
          z = - lp_radius params + real iz * stepSize;
          distFromAxis = sqrt (y * y + z * z)
      in if distFromAxis > lp_radius params then []
         else
           let scale = (2 * pi) / lp_size params;
               val = gyroidFunction y x z scale (lp_offset params)
           in if \<bar>val\<bar> < threshold
              then
                [sphere_mesh (lp_thickness params * 0.4) 3 3 (x, y, z)]
                @ (if js_lt (Num (real ix)) (js_sub xSteps (Num 1))
                      \<and> js_lt (Num (real iy)) (js_sub ySteps (Num 1))
                      \<and> js_lt (Num (real iz)) (js_sub zSteps (Num 1))
                   then
                     (let nextX = x + stepSize; nextY = y + stepSize; nextZ = z + stepSize;
                          nextValue = gyroidFunction nextY nextX nextZ scale (lp_offset params)
                      in if \<bar>nextValue\<bar> < threshold
                         then add_strut (x, y, z) (nextX, nextY, nextZ)
                                (lp_thickness params * 0.2) []
                         else [])
                   else [])
              else [])"

definition generateGyroidLatticeMesh :: "LatticeParams \<Rightarrow> primitive_mesh list outcome" where
  "generateGyroidLatticeMesh params =
     (let resolution = 6;
          stepSize = lp_size params / resolution;
          xSteps = js_ceil (js_div (Num (lp_length params)) (Num stepSize));
          ySteps = js_ceil (js_div (Num (lp_radius params * 2)) (Num stepSize));
          zSteps = js_ceil (js_div (Num (lp_radius params * 2)) (Num stepSize))
      in for_range (index_range xSteps)
           (\<lambda>ix. for_range (index_range ySteps)
              (\<lambda>iy. for_range (index_range zSteps)
                 (\<lambda>iz grp. Return (grp @ gyroid_point params xSteps ySteps zSteps ix iy iz))))
           [])"

subsection \<open>Diamond\<close>

definition diamond_positions :: "vec3 list" where
  "diamond_positions =
     [(0, 0, 0), (0, 0.5, 0.5), (0.5, 0, 0.5), (0.5, 0.5, 0),
      (0.25, 0.25, 0.25), (0.25, 0.75, 0.75), (0.75, 0.25, 0.75), (0.75, 0.75, 0.25)]"

definition diamond_bonds :: "(nat \<times> nat) list" where
  "diamond_bonds =
     [(0, 4), (1, 5), (2, 6), (3, 7), (4, 5), (4, 6), (4, 7), (5, 6), (5, 7), (6, 7)]"

definition diamond_atom :: "LatticeParams \<Rightarrow> vec3 \<Rightarrow> vec3 \<Rightarrow> vec3" where
  "diamond_atom params origin pos =
     (case origin of (x0, y0, z0) \<Rightarrow> case pos of (p0, p1, p2) \<Rightarrow>
        (x0 + p0 * lp_size params, y0 + p1 * lp_size params, z0 + p2 * lp_size params))"

definition diamond_bond ::
  "random_source \<Rightarrow> LatticeParams \<Rightarrow> vec3 \<Rightarrow> gen_state \<Rightarrow> nat \<times> nat \<Rightarrow> gen_state" where
  "diamond_bond rnd params origin s bond =
     (case s of (n, grp) \<Rightarrow> case bond of (b0, b1) \<Rightarrow>
        let atom1 = diamond_atom params origin (diamond_positions ! b0);
            atom2 = diamond_atom params origin (diamond_positions ! b1)
        in if outside_bounds params atom1 \<or> outside_bounds params atom2 then (n, grp)
           else
             let isVertical = \<bar>vec_x atom1 - vec_x atom2\<bar> < 0.01 * lp_size params
             in case vertical_or_random isVertical rnd 0.7 n of (go, n') \<Rightarrow>
                  if go then (n', add_strut atom1 atom2 (lp_thickness params * 0.3) grp)
                  else (n', grp))"

definition diamond_cell ::
  "random_source \<Rightarrow> LatticeParams \<Rightarrow> vec3 \<Rightarrow> gen_state \<Rightarrow> gen_state" where
  "diamond_cell rnd params c s =
     (case c of (x, y, z) \<Rightarrow> case s of (n, grp) \<Rightarrow>
        let sz = lp_size params;
            origin = (x * sz, y * sz, z * sz);
            grp1 = foldl (add_sphere_inside params (lp_thickness params)) grp
                     (map (diamond_atom params origin) diamond_positions)
        in foldl (diamond_bond rnd params origin) (n, grp1) diamond_bonds)"

definition generateDiamondLatticeMesh ::
  "random_source \<Rightarrow> LatticeParams \<Rightarrow> primitive_mesh list outcome" where
  "generateDiamondLatticeMesh rnd params =
     group_of (for_cells params (diamond_cell rnd params) (0, []))"

subsection \<open>Octet truss\<close>

definition cubeEdges :: "(nat \<times> nat) list" where
  "cubeEdges =
     [(0, 4), (1, 5), (2, 6), (3, 7),
      (0, 2), (1, 3), (4, 6), (5, 7),
      (0, 1), (2, 3), (4, 5), (6, 7)]"

definition octet_diagonals :: "(nat \<times> nat) list" where
  "octet_diagonals = [(0, 7), (1, 6), (2, 5), (3, 4)]"

definition octet_edge ::
  "random_source \<Rightarrow> LatticeParams \<Rightarrow> vec3 list \<Rightarrow> gen_state \<Rightarrow> nat \<times> nat \<times> nat \<Rightarrow> gen_state"
  where
  "octet_edge rnd params corners s e =
     (case s of (n, grp) \<Rightarrow> case e of (index, e0, e1) \<Rightarrow>
        let corner1 = corners ! e0; corner2 = corners ! e1
        in if outside_bounds params corner1 \<or> outside_bounds params corner2 then (n, grp)
           else
             let isVertical = index < 4
             in case vertical_or_random isVertical rnd 0.7 n of (go, n') \<Rightarrow>
                  if go then (n', add_strut corner1 corner2 (lp_thickness params * 0.3) grp)
                  else (n', grp))"

definition octet_diagonal ::
  "random_source \<Rightarrow> LatticeParams \<Rightarrow> vec3 list \<Rightarrow> gen_state \<Rightarrow> nat \<times> nat \<Rightarrow> gen_state" where
  "octet_diagonal rnd params corners s d =
     (case s of (n, grp) \<Rightarrow> case d of (d0, d1) \<Rightarrow>
        let corner1 = corners ! d0; corner2 = corners ! d1
        in if outside_bounds params corner1 \<or> outside_bounds params corner2 then (n, grp)
           else if rnd n < 0.3
           then (Suc n, add_strut corner1 corner2 (lp_thickness params * 0.3) grp)
           else (Suc n, grp))"

definition octet_cell :: "random_source \<Rightarrow> LatticeParams \<Rightarrow> vec3 \<Rightarrow> gen_state \<Rightarrow> gen_state" where
  "octet_cell rnd params c s =
     (case c of (x, y, z) \<Rightarrow> case s of (n, grp) \<Rightarrow>
        let sz = lp_size params;
            x0 = x * sz; y0 = y * sz; z0 = z * sz;
            corners =
              [(x0, y0, z0), (x0 + sz, y0, z0), (x0, y0 + sz, z0), (x0 + sz, y0 + sz, z0),
               (x0, y0, z0 + sz), (x0 + sz, y0, z0 + sz), (x0, y0 + sz, z0 + sz),
               (x0 + sz, y0 + sz, z0 + sz)];
            grp1 = foldl (add_sphere_inside params (lp_thickness params)) grp corners;
            s1 = foldl (octet_edge rnd params corners) (n, grp1) (enumerate 0 cubeEdges)
        in foldl (octet_diagonal rnd params corners) s1 octet_diagonals)"

definition generateOctetLatticeMesh ::
  "random_source \<Rightarrow> LatticeParams \<Rightarrow> primitive_mesh list outcome" where
  "generateOctetLatticeMesh rnd params =
     group_of (for_cells params (octet_cell rnd params) (0, []))"

subsection \<open>The pipeline of \<^verbatim>\<open>lib/materials.ts\<close>\<close>

definition generateLatticeMesh ::
  "random_source \<Rightarrow> LatticeType_m \<Rightarrow> LatticeParams \<Rightarrow> primitive_mesh list outcome" where
  "generateLatticeMesh rnd ltype params =
     (case ltype of
        VerticalStruts \<Rightarrow> generateVerticalLatticeMesh params
      | Bcc \<Rightarrow> generateBCCLatticeMesh rnd params
      | Fcc \<Rightarrow> generateFCCLatticeMesh rnd params
      | Gyroid \<Rightarrow> generateGyroidLatticeMesh params
      | Diamond \<Rightarrow> generateDiamondLatticeMesh rnd params
      | Octet \<Rightarrow> generateOctetLatticeMesh rnd params
      | NoLattice \<Rightarrow> Return [])"

text \<open>
  The union loop \<^verbatim>\<open>for (let i = step; i < latticeMeshes.length; i += step)\<close>, each
  union inside its own \<^verbatim>\<open>try\<close>.
\<close>

definition union_indices :: "nat \<Rightarrow> nat \<Rightarrow> nat list" where
  "union_indices step n = filter (\<lambda>i. step dvd i) [step..<n]"

definition combine_meshes :: "csg_oracle \<Rightarrow> primitive_mesh list \<Rightarrow> geometry outcome" where
  "combine_meshes fails latticeMeshes =
     (let maxMeshes = 50;
          step = max 1 (length latticeMeshes div maxMeshes)
      in for_each (union_indices step (length latticeMeshes))
           (\<lambda>i combined.
              try_update (csg_union fails combined (OfMesh (latticeMeshes ! i))) combined)
           (OfMesh (latticeMeshes ! 0)))"

text \<open>The statements of the \<^verbatim>\<open>try\<close> block of \<^verbatim>\<open>createLatticeGaugeSection\<close>.\<close>

definition lattice_gauge_attempt ::
  "csg_oracle \<Rightarrow> random_source \<Rightarrow> LatticeType_m \<Rightarrow> LatticeParams \<Rightarrow> mesh outcome" where
  "lattice_gauge_attempt fails rnd ltype params =
     (let gaugeGeometry = GaugeCylinder (lp_radius params) (lp_length params) 24;
          gaugeMesh = \<lparr>mesh_geometry = gaugeGeometry, wireframe = False, children = []\<rparr>
      in if ltype = NoLattice then Return gaugeMesh
         else
           case generateLatticeMesh rnd ltype params of
             Return latticeMeshes \<Rightarrow>
               if length latticeMeshes = 0 then Return gaugeMesh
               else
                 (case (if length latticeMeshes = 1 then Return (OfMesh (latticeMeshes ! 0))
                        else combine_meshes fails latticeMeshes) of
                    Return combinedGeometry \<Rightarrow>
                      (case csg_subtract fails gaugeGeometry combinedGeometry of
                         Return g \<Rightarrow>
                           Return \<lparr>mesh_geometry = g, wireframe = False, children = []\<rparr>
                       | Throw \<Rightarrow> Throw
                       | Diverge \<Rightarrow> Diverge)
                  | Throw \<Rightarrow> Throw
                  | Diverge \<Rightarrow> Diverge)
           | Throw \<Rightarrow> Throw
           | Diverge \<Rightarrow> Diverge)"

definition createLatticeGaugeSection_m ::
  "csg_oracle \<Rightarrow> random_source \<Rightarrow> LatticeType_m \<Rightarrow> LatticeParams \<Rightarrow> mesh outcome" where
  "createLatticeGaugeSection_m fails rnd ltype params =
     catch_fallback (lattice_gauge_attempt fails rnd ltype params) (fallbackMesh params 24)"

section \<open>Inputs and auxiliary definitions of the theorems\<close>

text \<open>The example of the specification: a non-tapered specimen with fillet radius 70.\<close>

definition example_params :: SpecimenParams where
  "example_params =
     \<lparr>gripLength = 50, gripDiameter = 15, gaugeLength = 30, gaugeDiameter = 7,
      filletRadius = 70, transitionType = TangentArc, useTaperedTransition = False,
      taperAngle = 8, material = Steel, latticeType = LNone, latticeSize = 2,
      latticeThickness = 0.5, latticeOffset = 0.5\<rparr>"

text \<open>The same specimen with a tapered transition of the given angle.\<close>

definition tapered_params :: "real \<Rightarrow> SpecimenParams" where
  "tapered_params angle = example_params\<lparr>useTaperedTransition := True, taperAngle := angle\<rparr>"

text \<open>A shorter non-tapered specimen whose transition length comes from the radii.\<close>

definition short_params :: SpecimenParams where
  "short_params =
     \<lparr>gripLength = 40, gripDiameter = 12, gaugeLength = 20, gaugeDiameter = 6,
      filletRadius = 5, transitionType = Spline, useTaperedTransition = False,
      taperAngle = 8, material = Aluminum, latticeType = LNone, latticeSize = 2,
      latticeThickness = 0.5, latticeOffset = 0.5\<rparr>"

text \<open>
  The axial coordinates of the profile points, as reals, for a grip length \<open>G\<close>, a gauge
  length \<open>gl\<close> and a finite transition length \<open>tln\<close>.
\<close>

definition profile_xs :: "real \<Rightarrow> real \<Rightarrow> real \<Rightarrow> bool \<Rightarrow> real list" where
  "profile_xs G gl tln tapered =
     [- (G * 2 + gl + tln * 2) / 2, - (G * 2 + gl + tln * 2) / 2, - gl / 2 - tln]
     @ (if tapered then [- gl / 2]
        else map (\<lambda>i. (- gl / 2 - tln) + (- gl / 2 - (- gl / 2 - tln)) * (real i / 20)) [1..<20])
     @ [- gl / 2, gl / 2]
     @ (if tapered then [gl / 2 + tln]
        else map (\<lambda>i. gl / 2 + (gl / 2 + tln - gl / 2) * (real i / 20)) [1..<20])
     @ [gl / 2 + tln, (G * 2 + gl + tln * 2) / 2, (G * 2 + gl + tln * 2) / 2]"

text \<open>
  The transition length in the words of the specification, with the taper angle clamped
  to the interval from 7 to 10 degrees.
\<close>

definition spec_clamped_transition_length :: "real \<Rightarrow> real \<Rightarrow> real \<Rightarrow> real" where
  "spec_clamped_transition_length gripRadius gaugeRadius taperAng =
     (gripRadius - gaugeRadius) / tan (max 7 (min 10 taperAng) * pi / 180)"

text \<open>The sample of a transition at index \<open>i\<close> between two finite end points.\<close>

definition transition_sample :: "real \<Rightarrow> real \<Rightarrow> real \<Rightarrow> real \<Rightarrow> nat \<Rightarrow> Point2D" where
  "transition_sample x0 y0 x1 y1 i =
     \<lparr>pt_x = Num (x0 + (x1 - x0) * (real i / 20)),
      pt_y = Num (y0 + (y1 - y0) * ((1 - cos (pi * (real i / 20))) / 2))\<rparr>"

text \<open>A fraction in the half-open interval from 0 to 1.\<close>

definition in_unit_interval :: "jsnum \<Rightarrow> bool" where
  "in_unit_interval v = (js_le (Num 0) v \<and> js_lt v (Num 1))"

text \<open>Lattice parameters: the defaults of the form, and three extreme settings.\<close>

definition typical_lattice :: LatticeParams where
  "typical_lattice =
     \<lparr>lp_size = 2, lp_thickness = 0.5, lp_offset = 0.5, lp_radius = 3.5, lp_length = 30\<rparr>"

definition dense_holes :: LatticeParams where
  "dense_holes =
     \<lparr>lp_size = 0.5, lp_thickness = 1, lp_offset = 1, lp_radius = 1, lp_length = 30\<rparr>"

definition short_gauge :: LatticeParams where
  "short_gauge =
     \<lparr>lp_size = 5, lp_thickness = 0.5, lp_offset = 0.5, lp_radius = 3.5, lp_length = 5\<rparr>"

text \<open>The Boolean operations that never throw.\<close>

definition never_fails :: csg_oracle where
  "never_fails op a b = False"




definition gyroid_example :: LatticeParams where
  "gyroid_example =
     \<lparr>lp_size = 3, lp_thickness = 0.5, lp_offset = 0.4, lp_radius = 3.5, lp_length = 30\<rparr>"

definition bcc_example :: LatticeParams where
  "bcc_example =
     \<lparr>lp_size = 2, lp_thickness = 0.5, lp_offset = 0.5, lp_radius = 1, lp_length = 10\<rparr>"



text \<open>Two runs of \<^verbatim>\<open>Math.random\<close>: one returns 0 every time, the other 0.9.\<close>

definition low_random :: random_source where
  "low_random n = 0"

definition high_random :: random_source where
  "high_random n = 0.9"




definition returns :: "'a outcome \<Rightarrow> bool" where
  "returns r = (case r of Return v \<Rightarrow> True | Throw \<Rightarrow> False | Diverge \<Rightarrow> False)"

text \<open>The primitives that a generator has put into its group.\<close>

definition emitted :: "primitive_mesh list outcome \<Rightarrow> primitive_mesh set" where
  "emitted r = (case r of Return ms \<Rightarrow> set ms | Throw \<Rightarrow> {} | Diverge \<Rightarrow> {})"

text \<open>A strut of the gyroid sampler, and a strut along the gauge axis.\<close>

definition escaping_strut :: primitive_mesh where
  "escaping_strut =
     \<lparr>shape_of = StrutShape (1, 2, 2) (3 / 2, 5 / 2, 5 / 2) (1 / 10),
      position = (0, 0, 0), rotation = (0, 0, 0)\<rparr>"

definition x_strut :: "real \<Rightarrow> real \<Rightarrow> real \<Rightarrow> primitive_mesh" where
  "x_strut a b r =
     \<lparr>shape_of = StrutShape (a, 0, 0) (b, 0, 0) r, position = (0, 0, 0),
      rotation = (0, 0, 0)\<rparr>"

section \<open>Validator: the rules and their order\<close>


section \<open>Profile generator: lengths\<close>

lemma js_sub_Num [simp]: "js_sub (Num a) (Num b) = Num (a - b)"
  by (simp add: js_sub_def)

text \<open>
  Claim C2. For every non-tapered parameter set the profile has the transition length
  \<open>max ((gripDiameter / 2 - gaugeDiameter / 2) * 4) (filletRadius * 1.2)\<close> and the total
  length \<open>2 * gripLength + gaugeLength + 2 * transitionLength\<close>; the example of the
  specification gives 84 and 298. The other preconditions of the claim are not needed.
\<close>

theorem profile_lengths_non_tapered:
  "(\<not> useTaperedTransition params \<longrightarrow>
      transitionLength (generateSpecimenProfile Circular params) =
        Num (max ((gripDiameter params / 2 - gaugeDiameter params / 2) * 4)
               (filletRadius params * 1.2))
      \<and> totalLength (generateSpecimenProfile Circular params) =
        Num (2 * gripLength params + gaugeLength params
             + 2 * max ((gripDiameter params / 2 - gaugeDiameter params / 2) * 4)
                     (filletRadius params * 1.2)))
   \<and> transitionLength (generateSpecimenProfile Circular example_params) = Num 84
   \<and> totalLength (generateSpecimenProfile Circular example_params) = Num 298"
  by (simp add: generateSpecimenProfile_def generateCircularSpecimenProfile_def
      calculateTransitionLength_def example_params_def Let_def)

theorem profile_lengths_non_tapered_witness:
  "\<not> useTaperedTransition short_params
   \<and> transitionLength (generateSpecimenProfile Circular short_params) = Num 12
   \<and> totalLength (generateSpecimenProfile Circular short_params) = Num 124"
  using profile_lengths_non_tapered [of short_params]
  by (simp add: short_params_def)

section \<open>Profile generator: the tapered transition\<close>

lemma taper_angle_acute:
  assumes "0 < a" "a < 90"
  shows "0 < tan (a * pi / 180)" "cos (a * pi / 180) \<noteq> 0"
proof -
  have p: "0 < a * pi / 180" using assms by simp
  have "a * pi / 180 < 90 * pi / 180" using assms by simp
  then have q: "a * pi / 180 < pi / 2" by simp
  show "0 < tan (a * pi / 180)" using p q by (rule tan_gt_zero)
  have "0 < cos (a * pi / 180)" using p q by (simp add: cos_gt_zero)
  then show "cos (a * pi / 180) \<noteq> 0" by simp
qed

lemma tan10_lt_1: "tan (10 * pi / 180) < 1"
proof -
  have "tan (10 * pi / 180) < tan (pi / 4)"
    by (rule tan_monotone) simp_all
  then show ?thesis by (simp add: tan_45)
qed

text \<open>
  Claim C8, as stated, fails: the generator does not clamp the taper angle. At the
  angle 0 the transition length is infinite, and at 45 degrees it is 4, not the value
  that the angle clamped to 10 degrees gives.
\<close>

theorem taper_angle_not_clamped:
  "transitionLength (generateSpecimenProfile Circular (tapered_params 0)) = PosInf
   \<and> transitionLength (generateSpecimenProfile Circular (tapered_params 45)) = Num 4
   \<and> transitionLength (generateSpecimenProfile Circular (tapered_params 45)) \<noteq>
       Num (spec_clamped_transition_length (gripDiameter (tapered_params 45) / 2)
              (gaugeDiameter (tapered_params 45) / 2) (taperAngle (tapered_params 45)))"
proof -
  have a: "transitionLength (generateSpecimenProfile Circular (tapered_params 0)) = PosInf"
    by (simp add: generateSpecimenProfile_def generateCircularSpecimenProfile_def Let_def
        tapered_params_def example_params_def calculateTaperedTransitionLength_def js_tan_def
        signed_inf_def)
  have "(45::real) * pi / 180 = pi / 4" by simp
  then have b: "transitionLength (generateSpecimenProfile Circular (tapered_params 45)) = Num 4"
    by (simp add: generateSpecimenProfile_def generateCircularSpecimenProfile_def Let_def
        tapered_params_def example_params_def calculateTaperedTransitionLength_def js_tan_def
        tan_45 cos_45)
  have "0 < tan ((10::real) * pi / 180)"
    by (rule taper_angle_acute) simp_all
  then have "4 / tan (10 * pi / 180) > 4 / 1"
    using tan10_lt_1 by (intro divide_strict_left_mono) simp_all
  then have c: "(4::real) \<noteq> spec_clamped_transition_length (15 / 2) (7 / 2) 45"
    by (simp add: spec_clamped_transition_length_def)
  have d: "gripDiameter (tapered_params 45) / 2 = 15 / 2"
    "gaugeDiameter (tapered_params 45) / 2 = 7 / 2" "taperAngle (tapered_params 45) = 45"
    by (simp_all add: tapered_params_def example_params_def)
  show ?thesis unfolding d using a b c by simp
qed

text \<open>
  Claim C8, amended. For every tapered parameter set whose taper angle lies strictly
  between 0 and 90 degrees, the transition length is
  \<open>(gripDiameter / 2 - gaugeDiameter / 2) / tan (taperAngle * pi / 180)\<close>, computed from
  the taper angle as given.
\<close>

theorem tapered_transition_length:
  assumes "useTaperedTransition params" "0 < taperAngle params" "taperAngle params < 90"
  shows "transitionLength (generateSpecimenProfile Circular params) =
           Num ((gripDiameter params / 2 - gaugeDiameter params / 2)
                / tan (taperAngle params * pi / 180))"
  using assms taper_angle_acute[OF assms(2,3)]
  by (simp add: generateSpecimenProfile_def generateCircularSpecimenProfile_def Let_def
        calculateTaperedTransitionLength_def js_tan_def)

theorem tapered_transition_length_witness:
  "useTaperedTransition (tapered_params 8) \<and> 0 < taperAngle (tapered_params 8)
   \<and> taperAngle (tapered_params 8) < 90
   \<and> transitionLength (generateSpecimenProfile Circular (tapered_params 8)) =
       Num (4 / tan (8 * pi / 180))"
  using tapered_transition_length [of "tapered_params 8"]
  by (simp add: tapered_params_def example_params_def)

section \<open>Profile generator: monotone points\<close>

lemma sorted_map_upt:
  fixes f :: "nat \<Rightarrow> real"
  assumes "\<And>i j. i \<le> j \<Longrightarrow> f i \<le> f j"
  shows "sorted (map f [a..<b])"
  by (simp add: sorted_wrt_iff_nth_less assms)

lemma sorted_wrt_js_le_Num: "sorted_wrt js_le (map Num xs) = sorted xs"
  by (induction xs) auto

lemma points_xs:
  assumes "transitionLength (generateCircularSpecimenProfile params) = Num tln"
  shows "map pt_x (points (generateCircularSpecimenProfile params)) =
         map Num (profile_xs (gripLength params) (gaugeLength params) tln
                    (useTaperedTransition params))"
  using assms
  by (simp add: generateCircularSpecimenProfile_def Let_def profile_xs_def
      generateTransitionPoints_def transitionPoint_def numPoints_def comp_def split: if_splits)

lemma sorted_sandwich:
  fixes a :: real
  assumes "sorted L" "sorted R"
    and "\<forall>x\<in>set L. b \<le> x \<and> x \<le> c" and "\<forall>x\<in>set R. d \<le> x \<and> x \<le> e"
    and "a \<le> b" "b \<le> c" "c \<le> d" "d \<le> e" "e \<le> f"
  shows "sorted ([a, a, b] @ L @ [c, d] @ R @ [e, f, f])"
  using assms by (fastforce simp add: sorted_append)

lemma interp_bounds:
  fixes d :: real
  assumes "0 \<le> d" "x \<in> set (map (\<lambda>i. a + d * (real i / 20)) [1..<20])"
  shows "a \<le> x \<and> x \<le> a + d"
proof -
  from assms(2) obtain i :: nat where i: "i < 20" and x: "x = a + d * (real i / 20)"
    by auto
  from i have "0 \<le> real i / 20" "real i / 20 \<le> 1" by simp_all
  then have "0 \<le> d * (real i / 20)" "d * (real i / 20) \<le> d"
    using assms(1) mult_left_mono[of "real i / 20" 1 d] by simp_all
  then show ?thesis using x by simp
qed

lemma sorted_interp:
  fixes d :: real
  assumes "0 \<le> d"
  shows "sorted (map (\<lambda>i. a + d * (real i / 20)) [m..<n])"
  by (rule sorted_map_upt) (simp add: assms mult_left_mono divide_right_mono)

lemma sorted_profile_xs:
  assumes "0 \<le> G" "0 \<le> gl" "0 \<le> tln"
  shows "sorted (profile_xs G gl tln tapered)"
proof (cases tapered)
  case True
  then show ?thesis using assms by (simp add: profile_xs_def)
next
  case False
  have d1: "- gl / 2 - (- gl / 2 - tln) = tln" and d2: "gl / 2 + tln - gl / 2 = tln"
    by simp_all
  have "sorted ([- (G * 2 + gl + tln * 2) / 2, - (G * 2 + gl + tln * 2) / 2, - gl / 2 - tln]
     @ map (\<lambda>i. (- gl / 2 - tln) + tln * (real i / 20)) [1..<20]
     @ [- gl / 2, gl / 2]
     @ map (\<lambda>i. gl / 2 + tln * (real i / 20)) [1..<20]
     @ [gl / 2 + tln, (G * 2 + gl + tln * 2) / 2, (G * 2 + gl + tln * 2) / 2])"
  proof (rule sorted_sandwich)
    show "\<forall>x\<in>set (map (\<lambda>i. (- gl / 2 - tln) + tln * (real i / 20)) [1..<20]).
            - gl / 2 - tln \<le> x \<and> x \<le> - gl / 2"
      using interp_bounds[OF assms(3), of _ "- gl / 2 - tln"] by fastforce
    show "\<forall>x\<in>set (map (\<lambda>i. gl / 2 + tln * (real i / 20)) [1..<20]).
            gl / 2 \<le> x \<and> x \<le> gl / 2 + tln"
      using interp_bounds[OF assms(3), of _ "gl / 2"] by fastforce
    show "sorted (map (\<lambda>i. (- gl / 2 - tln) + tln * (real i / 20)) [1..<20])"
      using assms(3) by (rule sorted_interp)
    show "sorted (map (\<lambda>i. gl / 2 + tln * (real i / 20)) [1..<20])"
      using assms(3) by (rule sorted_interp)
  qed (use assms in simp_all)
  then show ?thesis using False unfolding profile_xs_def d1 d2 by simp
qed

lemma transition_length_valid:
  assumes "gaugeDiameter params < gripDiameter params"
    and "useTaperedTransition params \<Longrightarrow> 7 \<le> taperAngle params \<and> taperAngle params \<le> 10"
  shows "\<exists>tln. 0 \<le> tln \<and> transitionLength (generateCircularSpecimenProfile params) = Num tln"
proof (cases "useTaperedTransition params")
  case True
  with assms(2) have a: "0 < taperAngle params" "taperAngle params < 90" by simp_all
  have "0 \<le> (gripDiameter params / 2 - gaugeDiameter params / 2)
             / tan (taperAngle params * pi / 180)"
    using taper_angle_acute(1)[OF a] assms(1) by simp
  then show ?thesis using True taper_angle_acute[OF a]
    by (simp add: generateCircularSpecimenProfile_def Let_def
        calculateTaperedTransitionLength_def js_tan_def)
next
  case False
  have "0 \<le> max ((gripDiameter params / 2 - gaugeDiameter params / 2) * 4)
               (filletRadius params * 1.2)"
    using assms(1) by (simp add: max_def)
  then show ?thesis using False
    by (simp add: generateCircularSpecimenProfile_def Let_def calculateTransitionLength_def)
qed

text \<open>
  Claim C3. For every valid parameter set (gauge diameter below grip diameter, positive
  grip and gauge lengths, taper angle between 7 and 10 degrees when the transition is
  tapered) the points of the profile are non-decreasing in their axial coordinate.
\<close>

theorem profile_points_nondecreasing:
  assumes "gaugeDiameter params < gripDiameter params"
    and "0 < gripLength params" and "0 < gaugeLength params"
    and "useTaperedTransition params \<longrightarrow> 7 \<le> taperAngle params \<and> taperAngle params \<le> 10"
  shows "sorted_wrt (\<lambda>p q. js_le (pt_x p) (pt_x q))
           (points (generateSpecimenProfile Circular params))"
proof -
  from transition_length_valid[of params] assms(1,4) obtain tln where
    t: "0 \<le> tln" "transitionLength (generateCircularSpecimenProfile params) = Num tln"
    by auto
  have "sorted_wrt js_le (map pt_x (points (generateCircularSpecimenProfile params)))"
    unfolding points_xs[OF t(2)] sorted_wrt_js_le_Num
    using assms(2,3) t(1) by (intro sorted_profile_xs) simp_all
  then show ?thesis by (simp add: sorted_wrt_map generateSpecimenProfile_def)
qed

theorem profile_points_nondecreasing_witness:
  "gaugeDiameter (tapered_params 8) < gripDiameter (tapered_params 8)
   \<and> 0 < gripLength (tapered_params 8) \<and> 0 < gaugeLength (tapered_params 8)
   \<and> useTaperedTransition (tapered_params 8)
   \<and> 7 \<le> taperAngle (tapered_params 8) \<and> taperAngle (tapered_params 8) \<le> 10
   \<and> sorted_wrt (\<lambda>p q. js_le (pt_x p) (pt_x q))
       (points (generateSpecimenProfile Circular (tapered_params 8)))"
  using profile_points_nondecreasing [of "tapered_params 8"]
  by (simp add: tapered_params_def example_params_def)

section \<open>Profile generator: the sampled transition\<close>

lemma transitionPoint_Num:
  "transitionPoint \<lparr>pt_x = Num x0, pt_y = Num y0\<rparr> \<lparr>pt_x = Num x1, pt_y = Num y1\<rparr> i =
     transition_sample x0 y0 x1 y1 i"
  by (simp add: transitionPoint_def transition_sample_def numPoints_def Let_def)

text \<open>
  Claim C9, as stated, fails: a transition region has 19 interior points, not 20. The
  loop runs from 1 to 19, and the profile of the example has 3 + 19 + 2 + 19 + 3 points.
\<close>

theorem transition_has_19_samples:
  "length (generateTransitionPoints \<lparr>pt_x = Num (- 99), pt_y = Num 7.5\<rparr>
             \<lparr>pt_x = Num (- 15), pt_y = Num 3.5\<rparr> 70 TangentArc) = 19
   \<and> length (generateTransitionPoints \<lparr>pt_x = Num (- 99), pt_y = Num 7.5\<rparr>
             \<lparr>pt_x = Num (- 15), pt_y = Num 3.5\<rparr> 70 TangentArc) \<noteq> 20
   \<and> length (points (generateSpecimenProfile Circular example_params)) = 46"
  by (simp add: generateTransitionPoints_def numPoints_def generateSpecimenProfile_def
      generateCircularSpecimenProfile_def Let_def example_params_def)

text \<open>
  Claim C9, amended. For every non-tapered parameter set, each transition region of the
  profile is sampled at exactly 19 interior points, at the parameters \<open>t = i / 20\<close> for
  \<open>i\<close> from 1 to 19 (20 equal steps between the end points); at \<open>t\<close> the axial
  coordinate is the linear interpolation of the end points and the radial coordinate is
  eased by \<open>(1 - cos (pi * t)) / 2\<close>. The whole point list is given; it has
  3 + 19 + 2 + 19 + 3 points.
\<close>

theorem transition_sampling:
  assumes "\<not> useTaperedTransition params"
  shows "points (generateSpecimenProfile Circular params) =
    (let gl = gaugeLength params;
         gripR = gripDiameter params / 2;
         gaugeR = gaugeDiameter params / 2;
         tln = calculateTransitionLength gripR gaugeR (filletRadius params)
                 (transitionType params);
         total = gripLength params * 2 + gl + tln * 2
     in [\<lparr>pt_x = Num (- total / 2), pt_y = Num 0\<rparr>,
         \<lparr>pt_x = Num (- total / 2), pt_y = Num gripR\<rparr>,
         \<lparr>pt_x = Num (- gl / 2 - tln), pt_y = Num gripR\<rparr>]
        @ map (transition_sample (- gl / 2 - tln) gripR (- gl / 2) gaugeR) [1..<20]
        @ [\<lparr>pt_x = Num (- gl / 2), pt_y = Num gaugeR\<rparr>,
           \<lparr>pt_x = Num (gl / 2), pt_y = Num gaugeR\<rparr>]
        @ map (transition_sample (gl / 2) gaugeR (gl / 2 + tln) gripR) [1..<20]
        @ [\<lparr>pt_x = Num (gl / 2 + tln), pt_y = Num gripR\<rparr>,
           \<lparr>pt_x = Num (total / 2), pt_y = Num gripR\<rparr>,
           \<lparr>pt_x = Num (total / 2), pt_y = Num 0\<rparr>])
    \<and> length (points (generateSpecimenProfile Circular params)) = 3 + 19 + 2 + 19 + 3"
  using assms
  by (simp add: generateSpecimenProfile_def generateCircularSpecimenProfile_def Let_def
      generateTransitionPoints_def transitionPoint_Num numPoints_def add_divide_distrib)

theorem transition_sampling_witness:
  "\<not> useTaperedTransition short_params
   \<and> length (points (generateSpecimenProfile Circular short_params)) = 46
   \<and> points (generateSpecimenProfile Circular short_params) ! 2
       = \<lparr>pt_x = Num (- 22), pt_y = Num 6\<rparr>
   \<and> points (generateSpecimenProfile Circular short_params) ! 3
       = transition_sample (- 22) 6 (- 10) 3 1"
  using transition_sampling [of short_params]
  by (simp add: short_params_def calculateTransitionLength_def Let_def upt_conv_Cons)

section \<open>Volume estimator\<close>

text \<open>
  Claim C4, as stated, fails. With holes of radius 1 every millimetre in a gauge of
  radius 1 the estimate for the type \<open>Vertical\<close> is \<open>116 / 75\<close>, above 1; with a gauge
  shorter than one spacing the estimate for \<open>SimpleVertical\<close> is negative.
\<close>

theorem volume_reduction_outside_unit_interval:
  "calculateLatticeVolumeReduction Vertical dense_holes = Num (116 / 75)
   \<and> \<not> in_unit_interval (calculateLatticeVolumeReduction Vertical dense_holes)
   \<and> calculateLatticeVolumeReduction SimpleVertical short_gauge = Num (- (1 / 70))
   \<and> \<not> in_unit_interval (calculateLatticeVolumeReduction SimpleVertical short_gauge)"
  by (simp add: calculateLatticeVolumeReduction_def dense_holes_def short_gauge_def Let_def
      in_unit_interval_def)

lemma strut_fraction:
  fixes s t r L c :: real
  assumes pos: "0 < s" "0 < t" "0 < r" "0 < L"
    and fit: "2 * s \<le> L" and ts: "t \<le> s" and tr: "t \<le> r"
    and c: "0 \<le> c" "c \<le> 1"
  shows "0 \<le> (of_int \<lfloor>L / (s * 2)\<rfloor> - 1) * (pi * t * t * (r * 2)) / (pi * r * r * L) * c"
    and "(of_int \<lfloor>L / (s * 2)\<rfloor> - 1) * (pi * t * t * (r * 2)) / (pi * r * r * L) * c < 1"
proof -
  define n :: real where "n = of_int \<lfloor>L / (s * 2)\<rfloor> - 1"
  have "1 \<le> L / (s * 2)" using pos fit by (simp add: field_simps)
  then have "1 \<le> \<lfloor>L / (s * 2)\<rfloor>" by (simp add: le_floor_iff)
  then have n0: "0 \<le> n" by (simp add: n_def)
  have "of_int \<lfloor>L / (s * 2)\<rfloor> \<le> L / (s * 2)" by (rule of_int_floor_le)
  then have n1: "n < L / (s * 2)" unfolding n_def by linarith
  have eq: "n * (pi * t * t * (r * 2)) / (pi * r * r * L) = 2 * n * t * t / (r * L)"
    using pos by (simp add: field_simps)
  have "t * t \<le> s * r" using pos ts tr by (intro mult_mono) simp_all
  then have "n * (t * t) \<le> n * (s * r)" using n0 by (rule mult_left_mono)
  also have "n * (s * r) < L / (s * 2) * (s * r)"
    using n1 pos by (intro mult_strict_right_mono) simp_all
  also have "\<dots> = r * L / 2" using pos by (simp add: field_simps)
  finally have "2 * n * t * t < r * L" by (simp add: algebra_simps)
  then have lt1: "2 * n * t * t / (r * L) < 1" using pos by (simp add: field_simps)
  have ge0: "0 \<le> 2 * n * t * t / (r * L)" using n0 pos by simp
  show "0 \<le> (of_int \<lfloor>L / (s * 2)\<rfloor> - 1) * (pi * t * t * (r * 2)) / (pi * r * r * L) * c"
    unfolding n_def[symmetric] eq using ge0 c by (intro mult_nonneg_nonneg)
  have "2 * n * t * t / (r * L) * c \<le> 2 * n * t * t / (r * L) * 1"
    using ge0 c by (intro mult_left_mono) simp_all
  then show "(of_int \<lfloor>L / (s * 2)\<rfloor> - 1) * (pi * t * t * (r * 2)) / (pi * r * r * L) * c < 1"
    using lt1 unfolding n_def[symmetric] eq by simp
qed

text \<open>
  Claim C4, amended. For lattice parameters with positive size, thickness, offset,
  radius and length: the estimate for \<open>LNone\<close> is 0; for the grid, cross, diamond and
  gyroid types it lies in the interval from 0 to 1 (1 excluded) when the offset is at
  most 1, the range of the form; for the two strut and hole types it lies in that
  interval when the gauge length holds one spacing (twice the size) and the thickness
  exceeds neither the size nor the radius.
\<close>

theorem volume_reduction_bounds:
  assumes "0 < lp_size p" "0 < lp_thickness p" "0 < lp_offset p" "0 < lp_radius p"
    "0 < lp_length p"
  shows "calculateLatticeVolumeReduction LNone p = Num 0
    \<and> (ltype \<in> {VerticalGrid, VerticalCross, VerticalDiamond, VerticalGyroid}
         \<and> lp_offset p \<le> 1
       \<longrightarrow> in_unit_interval (calculateLatticeVolumeReduction ltype p))
    \<and> (ltype \<in> {SimpleVertical, Vertical}
         \<and> 2 * lp_size p \<le> lp_length p \<and> lp_thickness p \<le> lp_size p
         \<and> lp_thickness p \<le> lp_radius p
       \<longrightarrow> in_unit_interval (calculateLatticeVolumeReduction ltype p))"
proof (intro conjI impI)
  show "calculateLatticeVolumeReduction LNone p = Num 0"
    by (simp add: calculateLatticeVolumeReduction_def)
next
  assume "ltype \<in> {VerticalGrid, VerticalCross, VerticalDiamond, VerticalGyroid}
         \<and> lp_offset p \<le> 1"
  then show "in_unit_interval (calculateLatticeVolumeReduction ltype p)"
    using assms(3)
    by (auto simp add: calculateLatticeVolumeReduction_def in_unit_interval_def Let_def)
next
  assume a: "ltype \<in> {SimpleVertical, Vertical}
         \<and> 2 * lp_size p \<le> lp_length p \<and> lp_thickness p \<le> lp_size p
         \<and> lp_thickness p \<le> lp_radius p"
  have nz: "lp_size p * 2 \<noteq> 0" "pi * lp_radius p * lp_radius p * lp_length p \<noteq> 0"
    using assms by simp_all
  have f5: "in_unit_interval (Num ((of_int \<lfloor>lp_length p / (lp_size p * 2)\<rfloor> - 1)
       * (pi * lp_thickness p * lp_thickness p * (lp_radius p * 2))
       / (pi * lp_radius p * lp_radius p * lp_length p) * 0.5))"
    unfolding in_unit_interval_def js_le.simps js_lt.simps
    using strut_fraction[of "lp_size p" "lp_thickness p" "lp_radius p" "lp_length p" "0.5"]
      assms a by simp
  have f8: "in_unit_interval (Num ((of_int \<lfloor>lp_length p / (lp_size p * 2)\<rfloor> - 1)
       * (pi * lp_thickness p * lp_thickness p * (lp_radius p * 2))
       / (pi * lp_radius p * lp_radius p * lp_length p) * 0.8))"
    unfolding in_unit_interval_def js_le.simps js_lt.simps
    using strut_fraction[of "lp_size p" "lp_thickness p" "lp_radius p" "lp_length p" "0.8"]
      assms a by simp
  from a have "ltype = SimpleVertical \<or> ltype = Vertical" by simp
  then show "in_unit_interval (calculateLatticeVolumeReduction ltype p)"
  proof
    assume "ltype = SimpleVertical"
    then show ?thesis using f5 nz
      by (simp add: calculateLatticeVolumeReduction_def Let_def)
  next
    assume "ltype = Vertical"
    then show ?thesis using f8 nz
      by (simp add: calculateLatticeVolumeReduction_def Let_def)
  qed
qed

theorem volume_reduction_bounds_witness:
  "0 < lp_size typical_lattice \<and> 0 < lp_thickness typical_lattice
   \<and> 0 < lp_offset typical_lattice \<and> 0 < lp_radius typical_lattice
   \<and> 0 < lp_length typical_lattice \<and> lp_offset typical_lattice \<le> 1
   \<and> 2 * lp_size typical_lattice \<le> lp_length typical_lattice
   \<and> lp_thickness typical_lattice \<le> lp_size typical_lattice
   \<and> lp_thickness typical_lattice \<le> lp_radius typical_lattice
   \<and> calculateLatticeVolumeReduction LNone typical_lattice = Num 0
   \<and> in_unit_interval (calculateLatticeVolumeReduction VerticalGyroid typical_lattice)
   \<and> in_unit_interval (calculateLatticeVolumeReduction Vertical typical_lattice)"
  using volume_reduction_bounds [of typical_lattice VerticalGyroid]
    volume_reduction_bounds [of typical_lattice Vertical]
  by (simp add: typical_lattice_def)

section \<open>The simple vertical lattice\<close>






section \<open>The Boolean pipeline: failures and fallback\<close>

lemma returns_Return [simp]: "returns (Return v)"
  by (simp add: returns_def)




lemma subtract_hole_eq:
  "subtract_hole fails h g =
     Return (if fails OpSubtract g (OfMesh h) then g else CSGSubtract g (OfMesh h))"
  by (simp add: subtract_hole_def csg_subtract_def try_update_def)

lemma returns_subtract_hole [simp]: "returns (subtract_hole fails h g)"
  by (simp add: subtract_hole_eq)



lemma centered_incl_floor_Some:
  "sp \<noteq> 0 \<Longrightarrow> centered_range_incl (js_floor (js_div (Num a) (Num sp))) \<noteq> None"
  by simp






























section \<open>The gyroid sampler and the bounding cylinder\<close>

lemma for_each_concat:
  assumes "\<And>v s. body v s = Return (s @ f v)"
  shows "for_each vs body s = Return (s @ concat (map f vs))"
  by (induction vs arbitrary: s) (simp_all add: assms)

lemma for_range_concat:
  assumes "\<And>v s. body v s = Return (s @ f v)"
  shows "for_range (Some vs) body s = Return (s @ concat (map f vs))"
  by (simp add: for_range_def for_each_concat[of body f, OF assms])

lemma gyroid_mesh_eq:
  assumes "lp_size p \<noteq> 0"
  shows "generateGyroidLatticeMesh p =
    (let stepSize = lp_size p / 6;
         xSteps = Num (of_int \<lceil>lp_length p / stepSize\<rceil>);
         ySteps = Num (of_int \<lceil>lp_radius p * 2 / stepSize\<rceil>)
     in Return (concat (map (\<lambda>ix. concat (map (\<lambda>iy. concat (map (\<lambda>iz.
          gyroid_point p xSteps ySteps ySteps ix iy iz)
          [0..<nat \<lceil>lp_radius p * 2 / stepSize\<rceil>]))
          [0..<nat \<lceil>lp_radius p * 2 / stepSize\<rceil>]))
          [0..<nat \<lceil>lp_length p / stepSize\<rceil>])))"
proof -
  have nz: "lp_size p / 6 \<noteq> 0" using assms by simp
  show ?thesis
    unfolding generateGyroidLatticeMesh_def Let_def
    using nz
    apply (simp only: js_div.simps js_ceil.simps if_False index_range.simps)
    apply (subst for_range_concat[where f = "\<lambda>ix. concat (map (\<lambda>iy. concat (map (\<lambda>iz.
          gyroid_point p (Num (of_int \<lceil>lp_length p / (lp_size p / 6)\<rceil>))
            (Num (of_int \<lceil>lp_radius p * 2 / (lp_size p / 6)\<rceil>))
            (Num (of_int \<lceil>lp_radius p * 2 / (lp_size p / 6)\<rceil>)) ix iy iz)
          [0..<nat \<lceil>of_int \<lceil>lp_radius p * 2 / (lp_size p / 6)\<rceil> :: real\<rceil>]))
          [0..<nat \<lceil>of_int \<lceil>lp_radius p * 2 / (lp_size p / 6)\<rceil> :: real\<rceil>])"])
     apply (subst for_range_concat[where f = "\<lambda>iy. concat (map (\<lambda>iz.
          gyroid_point p (Num (of_int \<lceil>lp_length p / (lp_size p / 6)\<rceil>))
            (Num (of_int \<lceil>lp_radius p * 2 / (lp_size p / 6)\<rceil>))
            (Num (of_int \<lceil>lp_radius p * 2 / (lp_size p / 6)\<rceil>)) v iy iz)
          [0..<nat \<lceil>of_int \<lceil>lp_radius p * 2 / (lp_size p / 6)\<rceil> :: real\<rceil>])" for v])
      apply (subst for_range_concat[where f = "\<lambda>iz.
          gyroid_point p (Num (of_int \<lceil>lp_length p / (lp_size p / 6)\<rceil>))
            (Num (of_int \<lceil>lp_radius p * 2 / (lp_size p / 6)\<rceil>))
            (Num (of_int \<lceil>lp_radius p * 2 / (lp_size p / 6)\<rceil>)) v va iz" for v va])
       apply simp
      apply simp
     apply simp
    apply simp
    done
qed


lemma trig_thirds:
  "sin (2 * pi / 3) = sqrt 3 / 2" "cos (2 * pi / 3) = - (1 / 2)"
  "sin (4 * pi / 3) = - (sqrt 3 / 2)" "cos (4 * pi / 3) = - (1 / 2)"
  "sin (5 * pi / 3) = - (sqrt 3 / 2)" "cos (5 * pi / 3) = 1 / 2"
proof -
  have a: "2 * pi / 3 = pi - pi / 3" "4 * pi / 3 = pi / 3 + pi" "5 * pi / 3 = 2 * pi - pi / 3"
    by simp_all
  show "sin (2 * pi / 3) = sqrt 3 / 2" unfolding a(1) sin_pi_minus by (rule sin_60)
  show "cos (2 * pi / 3) = - (1 / 2)" unfolding a(1) cos_pi_minus by (simp add: cos_60)
  show "sin (4 * pi / 3) = - (sqrt 3 / 2)" unfolding a(2) sin_periodic_pi by (simp add: sin_60)
  show "cos (4 * pi / 3) = - (1 / 2)" unfolding a(2) cos_periodic_pi by (simp add: cos_60)
  show "sin (5 * pi / 3) = - (sqrt 3 / 2)" unfolding a(3) sin_2pi_minus by (simp add: sin_60)
  show "cos (5 * pi / 3) = 1 / 2" unfolding a(3) cos_2pi_minus by (rule cos_60)
qed

lemma sqrt3_bounds: "0 < sqrt 3" "sqrt 3 < 2"
proof -
  show "0 < sqrt 3" by simp
  show "sqrt 3 < 2" by (rule real_less_lsqrt) simp_all
qed

lemma gyroid_point_example:
  "gyroid_point gyroid_example (Num 60) (Num 14) (Num 14) 32 11 11 =
     [sphere_mesh (1 / 5) 3 3 (1, 2, 2), escaping_strut]"
proof -
  have ang: "2 * (2 * pi / 3) = 4 * pi / 3" "5 * (2 * pi / 3) / 2 = 5 * pi / 3"
    "3 * (2 * pi / 3) / 2 = pi" "5 * (2 * pi) / (2 * 3) = 5 * pi / 3"
    "3 * (2 * pi) / (2 * 3) = pi" "2 * (2 * pi) / 3 = 4 * pi / 3"
    by simp_all
  have v: "\<bar>sqrt 3 / 4 - 2 / 5\<bar> < 3 / 5"
    using sqrt3_bounds by linarith
  have d1: "sqrt 8 \<le> 7 / 2" by (rule real_le_lsqrt) (simp_all add: power2_eq_square)
  have d2: "3 / 10 \<le> sqrt (3 / 4)" by (rule real_le_rsqrt) (simp add: power2_eq_square)
  have val1: "gyroidFunction 2 1 2 (2 * pi / 3) (2 / 5) = sqrt 3 / 4 - 2 / 5"
    by (simp add: gyroidFunction_def Let_def ang trig_thirds)
  have val2: "gyroidFunction (5 / 2) (3 / 2) (5 / 2) (2 * pi / 3) (2 / 5) = sqrt 3 / 4 - 2 / 5"
    by (simp add: gyroidFunction_def Let_def ang trig_thirds)
  show ?thesis
    using v d1 d2
    by (simp add: gyroid_point_def gyroid_example_def Let_def val1 val2 add_strut_def
        createStrut_def distanceTo_def escaping_strut_def not_less)
qed

text \<open>
  Claim C5 fails on the gyroid generator. For a cell size of 3, a thickness of 0.5, an
  offset of 0.4, a radius of 3.5 and a length of 30, the grid point \<open>(1, 2, 2)\<close> lies in
  the band of the surface and so does its diagonal neighbour \<open>(1.5, 2.5, 2.5)\<close>: the
  generator emits the strut between them, although the neighbour is at distance
  \<open>sqrt 12.5\<close> from the axis, beyond the radius. The other generators test both end
  points of a strut; this one tests the first only.
\<close>

theorem gyroid_strut_escapes_cylinder:
  "escaping_strut \<in> emitted (generateLatticeMesh low_random Gyroid gyroid_example)
   \<and> shape_of escaping_strut = StrutShape (1, 2, 2) (3 / 2, 5 / 2, 5 / 2) (1 / 10)
   \<and> lp_radius gyroid_example < dist_from_axis (3 / 2, 5 / 2, 5 / 2)"
proof -
  have sz: "lp_size gyroid_example \<noteq> 0" by (simp add: gyroid_example_def)
  have steps: "\<lceil>lp_length gyroid_example / (lp_size gyroid_example / 6)\<rceil> = 60"
    "\<lceil>lp_radius gyroid_example * 2 / (lp_size gyroid_example / 6)\<rceil> = 14"
    by (simp_all add: gyroid_example_def)
  have "escaping_strut \<in> set (gyroid_point gyroid_example (Num 60) (Num 14) (Num 14) 32 11 11)"
    by (simp add: gyroid_point_example)
  then have "escaping_strut \<in> emitted (generateGyroidLatticeMesh gyroid_example)"
    unfolding gyroid_mesh_eq[OF sz] Let_def steps emitted_def
    by (simp del: upt.simps) (force simp del: upt.simps)
  moreover have "7 / 2 < sqrt (25 / 2)"
    by (rule real_less_rsqrt) (simp add: power2_eq_square)
  ultimately show ?thesis
    by (simp add: generateLatticeMesh_def escaping_strut_def dist_from_axis_def
        gyroid_example_def)
qed


section \<open>Random inclusion\<close>

lemmas bcc_eval =
  generateLatticeMesh_def generateBCCLatticeMesh_def for_cells_def
  bcc_example_def Let_def for_range_def upt_conv_Cons group_of_def
  bcc_cell_def bcc_direction_def outside_bounds_def vec_x_def dist_from_axis_def
  vec_add_def enumerate_eq_zip vertical_or_random_def add_strut_def
  createStrut_def distanceTo_def sphere_mesh_def x_strut_def

text \<open>
  Claim C6, as stated, fails: the body-centred generator draws from the unseeded
  random source, and two runs on the same parameters produce different primitives when
  the values drawn differ.
\<close>

theorem bcc_depends_on_random:
  "generateLatticeMesh high_random Bcc bcc_example =
     Return (map (sphere_mesh (2 / 5) 4 4) [(- 4, 0, 0), (- 2, 0, 0), (0, 0, 0), (2, 0, 0), (4, 0, 0)])
   \<and> generateLatticeMesh low_random Bcc bcc_example =
     Return [sphere_mesh (2 / 5) 4 4 (- 4, 0, 0), x_strut (- 4) (- 2) (3 / 20),
             sphere_mesh (2 / 5) 4 4 (- 2, 0, 0), x_strut (- 2) 0 (3 / 20),
             sphere_mesh (2 / 5) 4 4 (0, 0, 0), x_strut 0 2 (3 / 20),
             sphere_mesh (2 / 5) 4 4 (2, 0, 0), x_strut 2 4 (3 / 20),
             sphere_mesh (2 / 5) 4 4 (4, 0, 0)]
   \<and> generateLatticeMesh low_random Bcc bcc_example \<noteq>
       generateLatticeMesh high_random Bcc bcc_example"
proof -
  have h: "generateLatticeMesh high_random Bcc bcc_example =
     Return (map (sphere_mesh (2 / 5) 4 4) [(- 4, 0, 0), (- 2, 0, 0), (0, 0, 0), (2, 0, 0), (4, 0, 0)])"
    by (simp add: bcc_eval high_random_def)
  have l: "generateLatticeMesh low_random Bcc bcc_example =
     Return [sphere_mesh (2 / 5) 4 4 (- 4, 0, 0), x_strut (- 4) (- 2) (3 / 20),
             sphere_mesh (2 / 5) 4 4 (- 2, 0, 0), x_strut (- 2) 0 (3 / 20),
             sphere_mesh (2 / 5) 4 4 (0, 0, 0), x_strut 0 2 (3 / 20),
             sphere_mesh (2 / 5) 4 4 (2, 0, 0), x_strut 2 4 (3 / 20),
             sphere_mesh (2 / 5) 4 4 (4, 0, 0)]"
    by (simp add: bcc_eval low_random_def)
  show ?thesis unfolding h l by simp
qed

text \<open>
  Claim C6, amended. The lattice types that draw no random number (none, vertical
  struts, gyroid) are deterministic: whatever the random source returns, two runs with
  identical inputs give the same primitives and the same result of the pipeline.
\<close>

theorem lattice_without_random_deterministic:
  assumes "ltm \<in> {NoLattice, VerticalStruts, Gyroid}"
  shows "generateLatticeMesh rnd1 ltm p = generateLatticeMesh rnd2 ltm p
    \<and> createLatticeGaugeSection_m fails rnd1 ltm p = createLatticeGaugeSection_m fails rnd2 ltm p"
  using assms
  by (auto simp add: generateLatticeMesh_def createLatticeGaugeSection_m_def
      lattice_gauge_attempt_def)

theorem lattice_without_random_deterministic_witness:
  "Gyroid \<in> {NoLattice, VerticalStruts, Gyroid}
   \<and> generateLatticeMesh low_random Gyroid gyroid_example =
       generateLatticeMesh high_random Gyroid gyroid_example
   \<and> createLatticeGaugeSection_m never_fails low_random Gyroid gyroid_example =
       createLatticeGaugeSection_m never_fails high_random Gyroid gyroid_example"
  using lattice_without_random_deterministic [of Gyroid low_random gyroid_example high_random never_fails]
  by simp



end
